theory Spec2Isabelle
  imports Main "HOL-Library.Word"
begin

section \<open>The wire data model of \<open>ios/Runner/bridge_generated.h\<close>\<close>

text \<open>
  The header declares the C structs that cross the boundary between the host
  application and the synchronization engine, and the prototypes of the
  engine's operations. Each struct is a record with the source's field names;
  where two structs share a field name the selector is written qualified
  (\<open>wire_cst_sync_conflict.local_modified\<close>).

  \<^item> \<open>uint32_t\<close>, \<open>uint64_t\<close> are words read with \<open>unat\<close>/\<open>uint\<close>;
    \<open>int32_t\<close>, \<open>int64_t\<close> are words read with \<open>sint\<close>.
  \<^item> A pointer field is an \<open>option\<close>: \<open>None\<close> is the null pointer.
  \<^item> A \<open>ptr\<close>/\<open>len\<close> pair is the list of its \<open>len\<close> elements.
\<close>

type_synonym uint8_t = "8 word"
type_synonym int32_t = "32 word"
type_synonym uint32_t = "32 word"
type_synonym int64_t = "64 word"
type_synonym uint64_t = "64 word"

text \<open>\<open>wire_cst_list_prim_u_8_strict\<close>: \<open>uint8_t *ptr; int32_t len\<close>, a byte string.\<close>

type_synonym wire_cst_list_prim_u_8_strict = string

text \<open>\<open>wire_cst_list_String\<close>: an array of pointers to byte strings.\<close>

type_synonym wire_cst_list_String = "wire_cst_list_prim_u_8_strict option list"

record wire_cst_sync_config =
  sync_folder :: "wire_cst_list_prim_u_8_strict option"
  database_path :: "wire_cst_list_prim_u_8_strict option"
  sync_interval_seconds :: uint32_t
  max_upload_speed_kbps :: uint32_t
  max_download_speed_kbps :: uint32_t
  delta_sync_enabled :: bool
  delta_sync_min_size :: uint64_t
  pause_on_metered :: bool
  wifi_only :: bool
  watch_filesystem :: bool
  ignore_patterns :: "wire_cst_list_String option"
  notifications_enabled :: bool
  launch_at_startup :: bool
  minimize_to_tray :: bool

record wire_cst_conflict_info =
  conflict_type :: int32_t
  detected_at :: int64_t

record wire_cst_server_info =
  url :: "wire_cst_list_prim_u_8_strict option"
  version :: "wire_cst_list_prim_u_8_strict option"
  name :: "wire_cst_list_prim_u_8_strict option"
  webdav_url :: "wire_cst_list_prim_u_8_strict option"
  quota_total :: uint64_t
  quota_used :: uint64_t
  supports_delta_sync :: bool
  supports_chunked_upload :: bool

record wire_cst_sync_conflict =
  id :: "wire_cst_list_prim_u_8_strict option"
  item_path :: "wire_cst_list_prim_u_8_strict option"
  local_modified :: int64_t
  remote_modified :: int64_t
  local_size :: uint64_t
  remote_size :: uint64_t
  conflict_type :: int32_t

type_synonym wire_cst_list_sync_conflict = "wire_cst_sync_conflict list"

record wire_cst_sync_history_entry =
  id :: "wire_cst_list_prim_u_8_strict option"
  timestamp :: int64_t
  operation :: "wire_cst_list_prim_u_8_strict option"
  item_path :: "wire_cst_list_prim_u_8_strict option"
  direction :: "wire_cst_list_prim_u_8_strict option"
  status :: "wire_cst_list_prim_u_8_strict option"
  error_message :: "wire_cst_list_prim_u_8_strict option"

type_synonym wire_cst_list_sync_history_entry = "wire_cst_sync_history_entry list"

text \<open>
  \<open>union SyncStatusKind\<close> overlays its two members, \<open>Conflict\<close> and
  \<open>Error\<close>, each a struct of one pointer \<open>field0\<close>: it is one pointer slot.
  The slot is null, or it points to a \<open>wire_cst_conflict_info\<close> (read through
  \<open>Conflict.field0\<close>) or to a byte string (read through \<open>Error.field0\<close>).
  Which member is meant is told by the \<open>tag\<close> of \<open>wire_cst_sync_status\<close>
  alone; for a status without payload the slot carries no information.
\<close>

datatype SyncStatusKind =
  null_field0
| Conflict wire_cst_conflict_info
| Error wire_cst_list_prim_u_8_strict

record wire_cst_sync_status =
  tag :: int32_t
  kind :: SyncStatusKind

record wire_cst_sync_item =
  id :: "wire_cst_list_prim_u_8_strict option"
  path :: "wire_cst_list_prim_u_8_strict option"
  name :: "wire_cst_list_prim_u_8_strict option"
  is_directory :: bool
  size :: uint64_t
  content_hash :: "wire_cst_list_prim_u_8_strict option"
  local_modified :: "int64_t option"
  remote_modified :: "int64_t option"
  status :: wire_cst_sync_status
  direction :: int32_t
  etag :: "wire_cst_list_prim_u_8_strict option"
  mime_type :: "wire_cst_list_prim_u_8_strict option"

type_synonym wire_cst_list_sync_item = "wire_cst_sync_item list"

record wire_cst_auth_result =
  success :: bool
  user_id :: "wire_cst_list_prim_u_8_strict option"
  username :: "wire_cst_list_prim_u_8_strict option"
  server_info :: wire_cst_server_info
  access_token :: "wire_cst_list_prim_u_8_strict option"

record wire_cst_sync_result =
  success :: bool
  items_uploaded :: uint32_t
  items_downloaded :: uint32_t
  items_deleted :: uint32_t
  conflicts :: uint32_t
  errors :: "wire_cst_list_String option"
  duration_ms :: uint64_t

section \<open>The Conflict Resolver\<close>

text \<open>
  The header gives the engine's operations as prototypes only. The decision
  rule of the Conflict Resolver and the history log are therefore written
  down from the specification's component design.
\<close>

text \<open>Modelled from the spec: the conflict types a \<open>ConflictInfo\<close> enumerates
  (both-modified, local-deleted-remote-modified, remote-deleted-local-modified,
  type-mismatch); their declaration is not in the header, which carries the
  type as an \<open>int32_t\<close>.\<close>

datatype ConflictType =
  BothModified
| LocalDeletedRemoteModified
| RemoteDeletedLocalModified
| TypeMismatch

text \<open>Modelled from the spec: the \<open>int32_t\<close> that stands for a conflict type on
  the wire, the types numbered in the order the spec lists them.\<close>

fun conflict_type_code :: "ConflictType \<Rightarrow> int32_t" where
  "conflict_type_code BothModified = 0"
| "conflict_type_code LocalDeletedRemoteModified = 1"
| "conflict_type_code RemoteDeletedLocalModified = 2"
| "conflict_type_code TypeMismatch = 3"

text \<open>Modelled from the spec: what one side (or the last synced baseline) holds
  at an item's path: nothing, a file known by its content hash, or a
  directory.\<close>

datatype Content =
  Absent
| FileContent wire_cst_list_prim_u_8_strict
| DirectoryContent

text \<open>Modelled from the spec: a candidate of the Change Scanner as the Conflict
  Resolver reads it: the item's identifier and path, the recorded baseline,
  the current local and remote state, and the modified times and sizes of
  both sides that a \<open>SyncConflict\<close> records.\<close>

record Candidate =
  candidate_id :: wire_cst_list_prim_u_8_strict
  candidate_path :: wire_cst_list_prim_u_8_strict
  baseline :: Content
  local_content :: Content
  remote_content :: Content
  local_mtime :: int64_t
  remote_mtime :: int64_t
  local_bytes :: uint64_t
  remote_bytes :: uint64_t

text \<open>Modelled from the spec: the transfer direction of an item
  (upload/download/none).\<close>

datatype TransferDirection = Upload | Download | NoTransfer

text \<open>Modelled from the spec: the auto-resolution policy, "configurable,
  default: surface to user", which "may instead apply most-recent-wins by
  comparing modification timestamps, or keep-both by renaming the losing copy
  with a suffix before retrying".\<close>

datatype ResolutionPolicy = SurfaceToUser | MostRecentWins | KeepBoth

text \<open>Modelled from the spec: what the resolver does with a candidate. A change
  of one side only "flows directly to the Delta Planner" (\<open>OneDirectional\<close>);
  a divergence is either "a resolved SyncItem re-entering the pipeline with an
  explicit direction" (\<open>Resolved\<close>), a renamed copy to be retried
  (\<open>RenamedForRetry\<close>), or "a durable SyncConflict record awaiting an explicit
  user resolution" (\<open>Surfaced\<close>). \<open>NothingToDo\<close> is a candidate whose sides
  agree with the baseline or with each other.\<close>

datatype ResolverOutcome =
  NothingToDo
| OneDirectional TransferDirection
| Resolved TransferDirection
| RenamedForRetry
| Surfaced wire_cst_sync_conflict

text \<open>Modelled from the spec: "if both sides changed and the resulting content
  hashes differ, it is a Conflict; if one side was deleted while the other was
  modified, it is a deletion conflict; if one side is now a directory where
  the other is a file (or vice versa), it is a type-mismatch conflict". The
  arguments are the local and the remote content of an item whose sides both
  changed; equal contents are no divergence.\<close>

fun classify :: "Content \<Rightarrow> Content \<Rightarrow> ConflictType option" where
  "classify Absent Absent = None"
| "classify Absent r = Some LocalDeletedRemoteModified"
| "classify l Absent = Some RemoteDeletedLocalModified"
| "classify (FileContent h1) (FileContent h2) = (if h1 = h2 then None else Some BothModified)"
| "classify DirectoryContent DirectoryContent = None"
| "classify l r = Some TypeMismatch"

text \<open>Modelled from the spec: the durable \<open>SyncConflict\<close> record of a candidate:
  "identifier, item path, local/remote modified timestamps, local/remote
  sizes, conflict type".\<close>

definition sync_conflict_of :: "Candidate \<Rightarrow> ConflictType \<Rightarrow> wire_cst_sync_conflict" where
  "sync_conflict_of c t =
     \<lparr> wire_cst_sync_conflict.id = Some (candidate_id c),
       wire_cst_sync_conflict.item_path = Some (candidate_path c),
       wire_cst_sync_conflict.local_modified = local_mtime c,
       wire_cst_sync_conflict.remote_modified = remote_mtime c,
       local_size = local_bytes c,
       remote_size = remote_bytes c,
       wire_cst_sync_conflict.conflict_type = conflict_type_code t \<rparr>"

text \<open>Modelled from the spec: the policy applied to a divergence of type \<open>t\<close>.
  Most-recent-wins compares the two modification timestamps (signed 64-bit);
  with equal timestamps neither copy is the most recent and the conflict is
  surfaced.\<close>

fun apply_policy :: "ResolutionPolicy \<Rightarrow> Candidate \<Rightarrow> ConflictType \<Rightarrow> ResolverOutcome" where
  "apply_policy SurfaceToUser c t = Surfaced (sync_conflict_of c t)"
| "apply_policy MostRecentWins c t =
     (if sint (remote_mtime c) < sint (local_mtime c) then Resolved Upload
      else if sint (local_mtime c) < sint (remote_mtime c) then Resolved Download
      else Surfaced (sync_conflict_of c t))"
| "apply_policy KeepBoth c t = RenamedForRetry"

text \<open>Modelled from the spec: the decision rule of section 4.2. "If only one
  side changed since the last synced baseline, the change is NOT a conflict:
  it is a one-directional update and flows directly to the Delta Planner";
  otherwise the divergence is classified and the policy applied.\<close>

definition conflict_resolver :: "ResolutionPolicy \<Rightarrow> Candidate \<Rightarrow> ResolverOutcome" where
  "conflict_resolver policy c =
     (let local_changed = (local_content c \<noteq> baseline c);
          remote_changed = (remote_content c \<noteq> baseline c)
      in if \<not> local_changed \<and> \<not> remote_changed then NothingToDo
         else if local_changed \<and> \<not> remote_changed then OneDirectional Upload
         else if \<not> local_changed \<and> remote_changed then OneDirectional Download
         else (case classify (local_content c) (remote_content c) of
                 None \<Rightarrow> NothingToDo
               | Some t \<Rightarrow> apply_policy policy c t))"

text \<open>Modelled from the spec: the \<open>SyncConflict\<close> records one pass over the
  candidates emits, in the order of the candidates.\<close>

fun emitted_conflicts :: "ResolutionPolicy \<Rightarrow> Candidate list \<Rightarrow> wire_cst_list_sync_conflict" where
  "emitted_conflicts policy [] = []"
| "emitted_conflicts policy (c # cs) =
     (case conflict_resolver policy c of
        Surfaced k \<Rightarrow> k # emitted_conflicts policy cs
      | _ \<Rightarrow> emitted_conflicts policy cs)"

text \<open>Modelled from the spec: the queue the Delta Planner receives, every item
  with its explicit direction.\<close>

fun delta_planner_queue :: "ResolutionPolicy \<Rightarrow> Candidate list \<Rightarrow> (Candidate \<times> TransferDirection) list" where
  "delta_planner_queue policy [] = []"
| "delta_planner_queue policy (c # cs) =
     (case conflict_resolver policy c of
        OneDirectional d \<Rightarrow> (c, d) # delta_planner_queue policy cs
      | Resolved d \<Rightarrow> (c, d) # delta_planner_queue policy cs
      | _ \<Rightarrow> delta_planner_queue policy cs)"

section \<open>The history log\<close>

text \<open>Modelled from the spec: the history is an "append-only log, never mutated
  after creation"; recording an operation appends its entry.\<close>

definition record_history ::
  "wire_cst_list_sync_history_entry \<Rightarrow> wire_cst_sync_history_entry \<Rightarrow> wire_cst_list_sync_history_entry" where
  "record_history log e = log @ [e]"

text \<open>Modelled from the spec: \<open>get_sync_history(limit)\<close> returns the most recent
  entries, newest first; \<open>limit\<close> is the prototype's \<open>uint32_t\<close>.\<close>

definition get_sync_history ::
  "uint32_t \<Rightarrow> wire_cst_list_sync_history_entry \<Rightarrow> wire_cst_list_sync_history_entry" where
  "get_sync_history limit log = take (unat limit) (rev log)"

section \<open>Example inputs\<close>

text \<open>The spec's examples: a file modified on both sides (baseline hash \<open>H0\<close>,
  local \<open>H1\<close>, remote \<open>H2\<close>) and a new local file of 10 MB.\<close>

definition example_both_modified :: Candidate where
  "example_both_modified =
     \<lparr> candidate_id = ''item-1'', candidate_path = ''docs/report.txt'',
       baseline = FileContent ''H0'', local_content = FileContent ''H1'',
       remote_content = FileContent ''H2'', local_mtime = 200, remote_mtime = 100,
       local_bytes = 10, remote_bytes = 12 \<rparr>"

definition example_new_local_file :: Candidate where
  "example_new_local_file =
     \<lparr> candidate_id = ''item-2'', candidate_path = ''video.bin'',
       baseline = Absent, local_content = FileContent ''H3'',
       remote_content = Absent, local_mtime = 300, remote_mtime = 0,
       local_bytes = 10485760, remote_bytes = 0 \<rparr>"

text \<open>A history entry recorded at time \<open>t\<close>, and the \<open>AuthResult\<close> of a
  failed login.\<close>

definition example_entry :: "int64_t \<Rightarrow> wire_cst_sync_history_entry" where
  "example_entry t =
     \<lparr> wire_cst_sync_history_entry.id = Some ''op'', timestamp = t,
       operation = Some ''upload'', wire_cst_sync_history_entry.item_path = Some ''a.txt'',
       wire_cst_sync_history_entry.direction = Some ''upload'',
       wire_cst_sync_history_entry.status = Some ''success'', error_message = None \<rparr>"

definition example_failed_login :: wire_cst_auth_result where
  "example_failed_login =
     \<lparr> wire_cst_auth_result.success = False, user_id = None, username = None,
       server_info =
         \<lparr> url = None, version = None, wire_cst_server_info.name = None, webdav_url = None,
           quota_total = 0, quota_used = 0,
           supports_delta_sync = False, supports_chunked_upload = False \<rparr>,
       access_token = None \<rparr>"

section \<open>Properties of the wire data model\<close>

lemma card_int64_t_option: "card (UNIV :: int64_t option set) = Suc (2 ^ 64)"
proof -
  have "(UNIV :: int64_t option set) = insert None (Some ` UNIV)"
    by (auto simp: image_iff)
  moreover have "card (insert None (Some ` (UNIV :: int64_t set))) = Suc (card (Some ` (UNIV :: int64_t set)))"
    by (rule card_insert_disjoint) auto
  moreover have "card (Some ` (UNIV :: int64_t set)) = card (UNIV :: int64_t set)"
    by (rule card_image) simp
  ultimately show ?thesis by (simp add: card_word)
qed

lemma nullable_time_not_injective:
  fixes g :: "int64_t option \<Rightarrow> int64_t"
  shows "\<exists>s t. s \<noteq> t \<and> g s = g t"
proof (rule ccontr)
  assume "\<not> (\<exists>s t. s \<noteq> t \<and> g s = g t)"
  then have "inj g" by (auto simp: inj_on_def)
  then have "card (UNIV :: int64_t option set) \<le> card (UNIV :: int64_t set)"
    by (metis card_inj_on_le subset_UNIV finite_class.finite_UNIV)
  then show False by (simp add: card_int64_t_option card_word)
qed

text \<open>
  Claim C9. A \<open>wire_cst_sync_conflict\<close> holds its two modified times as
  \<open>int64_t\<close> and its two sizes as \<open>uint64_t\<close> by value: every conflict,
  of whatever conflict type, has a definite value in each of the four fields.
  A \<open>wire_cst_sync_item\<close> holds its modified times behind pointers, so an
  item can say that a side is absent. No translation \<open>to_conflict\<close> of items
  into conflicts keeps that information: it gives two items with different
  local (and two with different remote) modified times the same time in the
  conflict, since the nullable time has one value more than the plain one.
\<close>

theorem sync_conflict_sides_not_nullable:
  fixes c :: wire_cst_sync_conflict
    and to_conflict :: "wire_cst_sync_item \<Rightarrow> wire_cst_sync_conflict"
  shows "(\<exists>lm rm ls rs.
            wire_cst_sync_conflict.local_modified c = lm
          \<and> wire_cst_sync_conflict.remote_modified c = rm
          \<and> local_size c = ls \<and> remote_size c = rs
          \<and> - (2 ^ 63) \<le> sint lm \<and> sint lm < 2 ^ 63
          \<and> - (2 ^ 63) \<le> sint rm \<and> sint rm < 2 ^ 63
          \<and> unat ls < 2 ^ 64 \<and> unat rs < 2 ^ 64)
       \<and> (\<exists>i :: wire_cst_sync_item.
              wire_cst_sync_item.local_modified i = None
              \<and> wire_cst_sync_item.remote_modified i = None)
       \<and> (\<exists>i j. wire_cst_sync_item.local_modified i \<noteq> wire_cst_sync_item.local_modified j
              \<and> wire_cst_sync_conflict.local_modified (to_conflict i) =
                  wire_cst_sync_conflict.local_modified (to_conflict j))
       \<and> (\<exists>i j. wire_cst_sync_item.remote_modified i \<noteq> wire_cst_sync_item.remote_modified j
              \<and> wire_cst_sync_conflict.remote_modified (to_conflict i) =
                  wire_cst_sync_conflict.remote_modified (to_conflict j))"
proof -
  obtain i0 :: wire_cst_sync_item where True by simp
  have range: "- (2 ^ 63) \<le> sint x \<and> sint x < 2 ^ 63 \<and> unat x < 2 ^ 64" for x :: "64 word"
    using sint_ge [of x] sint_lt [of x] unsigned_less [of x] by simp
  have "wire_cst_sync_item.local_modified
          (i0\<lparr>wire_cst_sync_item.local_modified := None,
              wire_cst_sync_item.remote_modified := None\<rparr>) = None
      \<and> wire_cst_sync_item.remote_modified
          (i0\<lparr>wire_cst_sync_item.local_modified := None,
              wire_cst_sync_item.remote_modified := None\<rparr>) = None"
    by simp
  then have absent: "\<exists>i :: wire_cst_sync_item.
              wire_cst_sync_item.local_modified i = None
              \<and> wire_cst_sync_item.remote_modified i = None"
    by blast
  obtain s t where st: "s \<noteq> t"
    "wire_cst_sync_conflict.local_modified (to_conflict (i0\<lparr>wire_cst_sync_item.local_modified := s\<rparr>)) =
     wire_cst_sync_conflict.local_modified (to_conflict (i0\<lparr>wire_cst_sync_item.local_modified := t\<rparr>))"
    using nullable_time_not_injective
      [of "\<lambda>v. wire_cst_sync_conflict.local_modified
              (to_conflict (i0\<lparr>wire_cst_sync_item.local_modified := v\<rparr>))"]
    by blast
  have "wire_cst_sync_item.local_modified (i0\<lparr>wire_cst_sync_item.local_modified := s\<rparr>)
          \<noteq> wire_cst_sync_item.local_modified (i0\<lparr>wire_cst_sync_item.local_modified := t\<rparr>)"
    using st(1) by simp
  with st(2) have loc: "\<exists>i j. wire_cst_sync_item.local_modified i \<noteq> wire_cst_sync_item.local_modified j
              \<and> wire_cst_sync_conflict.local_modified (to_conflict i) =
                  wire_cst_sync_conflict.local_modified (to_conflict j)"
    by blast
  obtain u v where uv: "u \<noteq> v"
    "wire_cst_sync_conflict.remote_modified (to_conflict (i0\<lparr>wire_cst_sync_item.remote_modified := u\<rparr>)) =
     wire_cst_sync_conflict.remote_modified (to_conflict (i0\<lparr>wire_cst_sync_item.remote_modified := v\<rparr>))"
    using nullable_time_not_injective
      [of "\<lambda>v. wire_cst_sync_conflict.remote_modified
              (to_conflict (i0\<lparr>wire_cst_sync_item.remote_modified := v\<rparr>))"]
    by blast
  have "wire_cst_sync_item.remote_modified (i0\<lparr>wire_cst_sync_item.remote_modified := u\<rparr>)
          \<noteq> wire_cst_sync_item.remote_modified (i0\<lparr>wire_cst_sync_item.remote_modified := v\<rparr>)"
    using uv(1) by simp
  with uv(2) have rem: "\<exists>i j. wire_cst_sync_item.remote_modified i \<noteq> wire_cst_sync_item.remote_modified j
              \<and> wire_cst_sync_conflict.remote_modified (to_conflict i) =
                  wire_cst_sync_conflict.remote_modified (to_conflict j)"
    by blast
  from range absent loc rem show ?thesis by simp
qed

text \<open>
  Claim C10. A \<open>wire_cst_auth_result\<close> embeds its \<open>wire_cst_server_info\<close> by
  value: every result, whatever its success flag, carries the two quota
  figures and the delta-sync and chunked-upload flags, and setting the
  success flag to false leaves the server information in place. (The four
  strings of the server information are pointers; the header says no more of
  them.)
\<close>

theorem auth_result_embeds_server_info:
  fixes r :: wire_cst_auth_result
  shows "(\<exists>si qt qu ds cu.
            server_info r = si
          \<and> quota_total si = qt \<and> quota_used si = qu
          \<and> supports_delta_sync si = ds \<and> supports_chunked_upload si = cu
          \<and> unat qt < 2 ^ 64 \<and> unat qu < 2 ^ 64)
       \<and> server_info (r\<lparr>wire_cst_auth_result.success := False\<rparr>) = server_info r"
  using unsigned_less [of "quota_total (server_info r)"] unsigned_less [of "quota_used (server_info r)"]
  by simp

theorem auth_result_embeds_server_info_witness:
  "\<not> wire_cst_auth_result.success example_failed_login
   \<and> quota_total (server_info example_failed_login) = 0
   \<and> quota_used (server_info example_failed_login) = 0
   \<and> \<not> supports_delta_sync (server_info example_failed_login)
   \<and> \<not> supports_chunked_upload (server_info example_failed_login)
   \<and> server_info (example_failed_login\<lparr>wire_cst_auth_result.success := False\<rparr>) =
       server_info example_failed_login"
  using auth_result_embeds_server_info [of example_failed_login]
  by (simp add: example_failed_login_def)

section \<open>Properties of the Conflict Resolver\<close>

lemma surfaced_is_conflict_of:
  "conflict_resolver policy c = Surfaced k \<Longrightarrow> \<exists>t. k = sync_conflict_of c t"
  by (cases policy) (auto simp: conflict_resolver_def Let_def split: if_splits option.splits)

lemma surfaced_item_path:
  "conflict_resolver policy c = Surfaced k \<Longrightarrow>
     wire_cst_sync_conflict.item_path k = Some (candidate_path c)"
  by (auto dest!: surfaced_is_conflict_of simp: sync_conflict_of_def)

lemma emitted_conflicts_other_paths:
  "candidate_path c \<notin> candidate_path ` set cs \<Longrightarrow>
     filter (\<lambda>k. wire_cst_sync_conflict.item_path k = Some (candidate_path c))
       (emitted_conflicts policy cs) = []"
proof (induction cs)
  case Nil
  then show ?case by simp
next
  case (Cons d cs)
  then show ?case
    by (cases "conflict_resolver policy d") (auto dest: surfaced_item_path)
qed

lemma emitted_conflicts_of_path:
  "c \<in> set cs \<Longrightarrow> distinct (map candidate_path cs) \<Longrightarrow>
     filter (\<lambda>k. wire_cst_sync_conflict.item_path k = Some (candidate_path c))
       (emitted_conflicts policy cs) =
     (case conflict_resolver policy c of Surfaced k \<Rightarrow> [k] | _ \<Rightarrow> [])"
proof (induction cs)
  case Nil
  then show ?case by simp
next
  case (Cons d cs)
  show ?case
  proof (cases "d = c")
    case True
    with Cons.prems have "candidate_path c \<notin> candidate_path ` set cs" by auto
    then have "filter (\<lambda>k. wire_cst_sync_conflict.item_path k = Some (candidate_path c))
       (emitted_conflicts policy cs) = []" by (rule emitted_conflicts_other_paths)
    with True show ?thesis
      by (cases "conflict_resolver policy c") (auto dest: surfaced_item_path)
  next
    case False
    with Cons.prems have in_cs: "c \<in> set cs" and dist: "distinct (map candidate_path cs)"
      and ne: "candidate_path d \<noteq> candidate_path c" by auto
    from Cons.IH [OF in_cs dist] ne show ?thesis
      by (cases "conflict_resolver policy d") (auto dest: surfaced_item_path)
  qed
qed

lemma one_sided_outcome:
  "(local_content c \<noteq> baseline c) \<noteq> (remote_content c \<noteq> baseline c) \<Longrightarrow>
   conflict_resolver policy c =
     OneDirectional (if local_content c \<noteq> baseline c then Upload else Download)"
  by (auto simp: conflict_resolver_def)

lemma delta_planner_queue_member:
  "c \<in> set cs \<Longrightarrow> conflict_resolver policy c = OneDirectional d \<Longrightarrow>
     (c, d) \<in> set (delta_planner_queue policy cs)"
proof (induction cs)
  case Nil
  then show ?case by simp
next
  case (Cons e cs)
  then show ?case
    by (cases "conflict_resolver policy e") auto
qed

text \<open>
  Claim C2. Let \<open>c\<close> be a candidate of the pass of which exactly one side
  differs from the baseline. Whatever the policy, the resolver's outcome is a
  one-directional update (an upload when the local side changed, a download
  when the remote side changed) and the item is in the queue of the Delta
  Planner with that direction; when the paths of the candidates are distinct,
  the pass emits no \<open>SyncConflict\<close> for the path of \<open>c\<close>.
\<close>

theorem one_sided_change_is_no_conflict:
  assumes "c \<in> set cs"
    and "(local_content c \<noteq> baseline c) \<noteq> (remote_content c \<noteq> baseline c)"
  shows "conflict_resolver policy c =
           OneDirectional (if local_content c \<noteq> baseline c then Upload else Download)
       \<and> (c, if local_content c \<noteq> baseline c then Upload else Download)
           \<in> set (delta_planner_queue policy cs)
       \<and> (distinct (map candidate_path cs) \<longrightarrow>
            filter (\<lambda>k. wire_cst_sync_conflict.item_path k = Some (candidate_path c))
              (emitted_conflicts policy cs) = [])"
proof -
  let ?d = "if local_content c \<noteq> baseline c then Upload else Download"
  have o: "conflict_resolver policy c = OneDirectional ?d"
    using assms(2) by (rule one_sided_outcome)
  have "filter (\<lambda>k. wire_cst_sync_conflict.item_path k = Some (candidate_path c))
           (emitted_conflicts policy cs) = []"
    if "distinct (map candidate_path cs)"
    using emitted_conflicts_of_path [OF assms(1) that, of policy] o by simp
  moreover have "(c, ?d) \<in> set (delta_planner_queue policy cs)"
    using assms(1) o by (rule delta_planner_queue_member)
  ultimately show ?thesis using o by simp
qed

text \<open>The spec's new local file, in a pass with the file modified on both
  sides.\<close>

theorem one_sided_change_is_no_conflict_witness:
  "conflict_resolver MostRecentWins example_new_local_file = OneDirectional Upload
   \<and> (example_new_local_file, Upload)
       \<in> set (delta_planner_queue MostRecentWins [example_new_local_file, example_both_modified])
   \<and> filter (\<lambda>k. wire_cst_sync_conflict.item_path k = Some ''video.bin'')
       (emitted_conflicts SurfaceToUser [example_new_local_file, example_both_modified]) = []"
  using one_sided_change_is_no_conflict
    [of example_new_local_file "[example_new_local_file, example_both_modified]" MostRecentWins]
    one_sided_change_is_no_conflict
    [of example_new_local_file "[example_new_local_file, example_both_modified]" SurfaceToUser]
  by (simp add: example_both_modified_def example_new_local_file_def conflict_resolver_def
      sync_conflict_of_def)

section \<open>Properties of the history log\<close>

lemma foldl_record_history: "foldl record_history log ops = log @ ops"
  by (induction ops arbitrary: log) (auto simp: record_history_def)

lemma get_sync_history_timestamps:
  "rev (map f (get_sync_history limit (foldl record_history [] ops))) =
     drop (length ops - unat limit) (map f ops)"
  by (simp add: get_sync_history_def foldl_record_history take_rev rev_map drop_map)

text \<open>
  Claim C8. After the operations \<open>ops\<close> have been recorded, in this order, on
  an empty log, \<open>get_sync_history limit\<close> returns the
  \<open>min limit (length ops)\<close> most recent entries, newest first: its entry
  \<open>i\<close> is the entry recorded \<open>i\<close> places before the last one. When the
  operations were recorded in the order of their timestamps, the timestamps of
  the result descend.
\<close>

theorem get_sync_history_most_recent_first:
  "length (get_sync_history limit (foldl record_history [] ops)) = min (unat limit) (length ops)
   \<and> (\<forall>i < min (unat limit) (length ops).
        get_sync_history limit (foldl record_history [] ops) ! i = ops ! (length ops - 1 - i))
   \<and> (sorted (map (\<lambda>e. sint (timestamp e)) ops) \<longrightarrow>
        sorted (rev (map (\<lambda>e. sint (timestamp e))
          (get_sync_history limit (foldl record_history [] ops)))))"
proof -
  have "sorted (rev (map (\<lambda>e. sint (timestamp e))
          (get_sync_history limit (foldl record_history [] ops))))"
    if "sorted (map (\<lambda>e. sint (timestamp e)) ops)"
    unfolding get_sync_history_timestamps using that by (rule sorted_wrt_drop)
  then show ?thesis
    by (auto simp: get_sync_history_def foldl_record_history rev_nth)
qed

text \<open>The spec's example: after 7 recorded operations, a limit of 5 returns the
  5 most recent entries, newest first.\<close>

theorem get_sync_history_most_recent_first_witness:
  "get_sync_history 5 (foldl record_history [] (map example_entry [1, 2, 3, 4, 5, 6, 7])) =
     map example_entry [7, 6, 5, 4, 3]
   \<and> sorted (map (\<lambda>e. sint (timestamp e)) (map example_entry [1, 2, 3, 4, 5, 6, 7]))
   \<and> sorted (rev (map (\<lambda>e. sint (timestamp e))
        (get_sync_history 5 (foldl record_history [] (map example_entry [1, 2, 3, 4, 5, 6, 7])))))"
proof -
  let ?ops = "map example_entry [1, 2, 3, 4, 5, 6, 7]"
  let ?h = "get_sync_history 5 (foldl record_history [] ?ops)"
  have s: "sorted (map (\<lambda>e. sint (timestamp e)) ?ops)"
    by (simp add: example_entry_def)
  have t: "length ?h = min (unat (5 :: uint32_t)) (length ?ops)
   \<and> (\<forall>i < min (unat (5 :: uint32_t)) (length ?ops). ?h ! i = ?ops ! (length ?ops - 1 - i))
   \<and> (sorted (map (\<lambda>e. sint (timestamp e)) ?ops) \<longrightarrow>
        sorted (rev (map (\<lambda>e. sint (timestamp e)) ?h)))"
    by (rule get_sync_history_most_recent_first)
  have len: "length ?h = 5" using t by simp
  have nth: "?h ! i = ?ops ! (length ?ops - 1 - i)" if "i < 5" for i
    using t that by simp
  have "?h ! 0 = example_entry 7" "?h ! 1 = example_entry 6" "?h ! 2 = example_entry 5"
    "?h ! 3 = example_entry 4" "?h ! 4 = example_entry 3"
    using nth [of 0] nth [of 1] nth [of 2] nth [of 3] nth [of 4] by simp_all
  then have "?h = map example_entry [7, 6, 5, 4, 3]"
    using len by (simp add: list_eq_iff_nth_eq less_Suc_eq eval_nat_numeral)
  moreover have "sorted (rev (map (\<lambda>e. sint (timestamp e)) ?h))"
    using t s by blast
  ultimately show ?thesis using s by blast
qed

end
